theory Spec2Isabelle
  imports Main
begin

section \<open>Data model\<close>

text \<open>
  The program reads \<^verbatim>\<open>cassiopeia.Match\<close> objects and flattens them into CSV rows.
  The client library is not part of the sources, so its objects appear here as records
  holding exactly the attributes that \<^verbatim>\<open>retrieve_matches.py\<close> reads.
\<close>

text \<open>
  Modelled from the spec: the enumerations \<^verbatim>\<open>cassiopeia.data.GameMode\<close>,
  \<^verbatim>\<open>cassiopeia.data.Queue\<close> and \<^verbatim>\<open>cassiopeia.data.Side\<close> (spec section 3:
  game-mode, queue-type, side label). The source only compares against \<^verbatim>\<open>classic\<close>
  and \<^verbatim>\<open>ranked_solo_fives\<close>; every other member is kept by its name.
\<close>

datatype GameMode = classic | other_mode string

datatype Queue = ranked_solo_fives | other_queue string

datatype Side = blue | red

fun side_name :: "Side \<Rightarrow> string" where
  "side_name blue = ''blue''"
| "side_name red = ''red''"

text \<open>
  Modelled from the spec: the Team and Match entities of spec section 3, with the
  attribute names the source uses. A ban slot is \<open>None\<close> where Python has \<^verbatim>\<open>None\<close>.
\<close>

record Champion =
  name :: string

record Participant =
  champion :: Champion

record Team =
  side :: Side
  win :: bool
  bans :: "Champion option list"
  participants :: "Participant list"
  tower_kills :: int
  inhibitor_kills :: int
  dragon_kills :: int
  rift_herald_kills :: int
  baron_kills :: int
  first_tower :: bool
  first_inhibitor :: bool
  first_dragon :: bool
  first_rift_herald :: bool
  first_baron :: bool

record Match =
  match_id :: int
  version :: string
  exists :: bool
  mode :: GameMode
  queue :: Queue
  red_team :: Team
  blue_team :: Team

text \<open>
  A Python list handed to \<^verbatim>\<open>csv_writer.writerow\<close> mixes integers, strings and
  booleans; a cell keeps the value and its kind.
\<close>

datatype cell = CInt int | CStr string | CBool bool

type_synonym row = "cell list"

text \<open>
  The exceptions: \<^verbatim>\<open>ValueError\<close> and \<^verbatim>\<open>OSError\<close> with their messages, the
  \<^verbatim>\<open>OSError\<close> that \<^verbatim>\<open>open\<close> raises for a path it cannot open
  (\<^verbatim>\<open>FileNotFoundError\<close>, \<^verbatim>\<open>PermissionError\<close> and the like), and whatever the
  remote call raises.
\<close>

datatype error = ValueError string | OSError string | OpenError string | RemoteError

section \<open>Row extraction\<close>

definition get_team_stats :: "string \<Rightarrow> Match \<Rightarrow> error + row" where
  "get_team_stats team match =
     (case (if team = ''red'' then Inr (red_team match)
            else if team = ''blue'' then Inr (blue_team match)
            else Inl (ValueError ''Unknown team color given (must pick 'red' or 'blue').''))
      of Inl e \<Rightarrow> Inl e
       | Inr team \<Rightarrow>
          (let team_info = [CInt (match_id match), CStr (version match),
                            CStr (side_name (side team)), CBool (win team)];
               ban_names = map (\<lambda>ban. case ban of Some c \<Rightarrow> CStr (name c) | None \<Rightarrow> CStr '''')
                             (bans team);
               players = map (\<lambda>participant. CStr (name (champion participant)))
                           (participants team);
               team_stats = [CInt (tower_kills team), CInt (inhibitor_kills team),
                             CInt (dragon_kills team), CInt (rift_herald_kills team),
                             CInt (baron_kills team), CBool (first_tower team),
                             CBool (first_inhibitor team), CBool (first_dragon team),
                             CBool (first_rift_herald team), CBool (first_baron team)]
           in Inr (team_info @ ban_names @ players @ team_stats)))"

section \<open>The world the program acts on\<close>

text \<open>
  The effects of the program are its writes to the file system, its calls of the remote
  service, its pauses and its messages on standard output. A file is the list of the CSV
  rows written to it; \<open>unopenable\<close> holds the paths that \<^verbatim>\<open>open\<close> refuses (a path
  in a directory that does not exist, a file without write permission); \<open>events\<close> is
  the chronological log of everything else. The messages are kept structured (the
  f-strings of the source, before formatting). A write to a file that has been opened
  succeeds.
\<close>

datatype message =
    NotExist int
  | NotCriteria int
  | Added int int int
  | Creating string
  | Retrieved int string

datatype event =
    SetApiKey string
  | SetRegion string
  | Slept int
  | Fetched int
  | Printed message
  | Opened string
  | Closed string

record world =
  files :: "string \<rightharpoonup> row list"
  unopenable :: "string set"
  events :: "event list"

definition emit :: "event \<Rightarrow> world \<Rightarrow> world" where
  "emit e w = w\<lparr>events := events w @ [e]\<rparr>"

definition file_rows :: "world \<Rightarrow> string \<Rightarrow> row list" where
  "file_rows w f = (case files w f of None \<Rightarrow> [] | Some rs \<Rightarrow> rs)"

text \<open>
  \<^verbatim>\<open>open(filename, 'a+')\<close>: it raises when the path cannot be opened; otherwise the
  file is created when it is missing.
\<close>

definition open_append :: "string \<Rightarrow> world \<Rightarrow> error + world" where
  "open_append f w =
     (if f \<in> unopenable w then Inl (OpenError f)
      else Inr (emit (Opened f) (w\<lparr>files := (files w)(f \<mapsto> file_rows w f)\<rparr>)))"

text \<open>\<^verbatim>\<open>csv_writer.writerow\<close> on a file opened for appending: the row goes to the end.\<close>

definition writerow :: "string \<Rightarrow> row \<Rightarrow> world \<Rightarrow> world" where
  "writerow f r w = w\<lparr>files := (files w)(f \<mapsto> file_rows w f @ [r])\<rparr>"

definition close_file :: "string \<Rightarrow> world \<Rightarrow> world" where
  "close_file f w = emit (Closed f) w"

section \<open>The retrieval loop\<close>

definition header_row :: row where
  "header_row = map CStr
     [''id'', ''version'', ''side'', ''win'', ''ban1'', ''ban2'', ''ban3'', ''ban4'', ''ban5'',
      ''champion1'', ''champion2'', ''champion3'', ''champion4'', ''champion5'',
      ''tower_kills'', ''inhibitor_kills'', ''dragon_kills'', ''rift_herald_kills'',
      ''baron_kills'', ''first_tower'', ''first_inhibitor'', ''first_dragon'',
      ''first_rift_herald'', ''first_baron'']"

text \<open>
  One pass through the body of the \<^verbatim>\<open>while\<close> loop of \<^verbatim>\<open>get_match_records\<close>
  (lines 60 to 91). The remote call \<^verbatim>\<open>cassiopeia.get_match\<close> is the parameter
  \<open>get_match\<close>; it answers with a match or raises. \<^verbatim>\<open>time.sleep\<close> raises
  \<^verbatim>\<open>ValueError\<close> on a negative length. The result is the exception raised, if any,
  and the values of \<^verbatim>\<open>read_records\<close> and \<^verbatim>\<open>current_id\<close> and the world after
  the pass. When \<^verbatim>\<open>open\<close> raises, the message of line 69 has been printed and
  nothing else has happened. An exception inside the \<^verbatim>\<open>with\<close> block closes the file
  on its way out; the two calls of \<^verbatim>\<open>get_team_stats\<close> there pass \<^verbatim>\<open>'blue'\<close> and
  \<^verbatim>\<open>'red'\<close>, for which it does not raise, so these two branches are never taken.
\<close>

definition get_match_records_body ::
  "(int \<Rightarrow> error + Match) \<Rightarrow> string \<Rightarrow> int \<Rightarrow> int \<Rightarrow> int \<Rightarrow> int \<Rightarrow> world
     \<Rightarrow> (error + unit) \<times> int \<times> int \<times> world" where
  "get_match_records_body get_match filename max_records sleep_time read_records current_id w =
     (if sleep_time < 0
      then (Inl (ValueError ''sleep length must be non-negative''), read_records, current_id, w)
      else
        let w = emit (Slept sleep_time) w;
            w = emit (Fetched current_id) w
        in case get_match current_id of
             Inl e \<Rightarrow> (Inl e, read_records, current_id, w)
           | Inr match \<Rightarrow>
              (case
                 (if \<not> exists match
                  then (Inr (), read_records, emit (Printed (NotExist (match_id match))) w)
                  else if mode match \<noteq> classic \<or> queue match \<noteq> ranked_solo_fives
                  then (Inr (), read_records, emit (Printed (NotCriteria (match_id match))) w)
                  else
                    let w = emit (Printed (Added (match_id match) (read_records + 1) max_records)) w
                    in case open_append filename w of
                         Inl e \<Rightarrow> (Inl e, read_records, w)
                       | Inr w \<Rightarrow>
                          (let w = (if read_records = 0 then writerow filename header_row w else w)
                           in case get_team_stats ''blue'' match of
                                Inl e \<Rightarrow> (Inl e, read_records, close_file filename w)
                              | Inr bteam_info \<Rightarrow>
                                 (let w = writerow filename bteam_info w
                                  in case get_team_stats ''red'' match of
                                       Inl e \<Rightarrow> (Inl e, read_records, close_file filename w)
                                     | Inr rteam_info \<Rightarrow>
                                        (let w = writerow filename rteam_info w;
                                             w = close_file filename w
                                         in (Inr (), read_records + 1, w)))))
               of (Inl e, read_records, w) \<Rightarrow> (Inl e, read_records, current_id, w)
                | (Inr u, read_records, w) \<Rightarrow> (Inr (), read_records, current_id - 1, w)))"

text \<open>
  The \<^verbatim>\<open>while read_records < max_records\<close> loop. Nothing bounds the number of
  passes, so the loop is a partial function: \<open>None\<close> is a run that never ends.
\<close>

partial_function (option) get_match_records_loop ::
  "(int \<Rightarrow> error + Match) \<Rightarrow> string \<Rightarrow> int \<Rightarrow> int \<Rightarrow> int \<Rightarrow> int \<Rightarrow> world
     \<Rightarrow> ((error + unit) \<times> int \<times> int \<times> world) option" where
  "get_match_records_loop get_match filename max_records sleep_time read_records current_id w =
     (if read_records < max_records
      then (case get_match_records_body get_match filename max_records sleep_time
                   read_records current_id w of
              (Inl e, read_records', current_id', w') \<Rightarrow> Some (Inl e, read_records', current_id', w')
            | (Inr u, read_records', current_id', w') \<Rightarrow>
                get_match_records_loop get_match filename max_records sleep_time
                  read_records' current_id' w')
      else Some (Inr (), read_records, current_id, w))"

declare get_match_records_loop.simps [code]

definition get_match_records ::
  "(int \<Rightarrow> error + Match) \<Rightarrow> string \<Rightarrow> int \<Rightarrow> int \<Rightarrow> int \<Rightarrow> world
     \<Rightarrow> ((error + unit) \<times> world) option" where
  "get_match_records get_match filename start_id max_records sleep_time w =
     (let w = emit (SetApiKey ''RGAPI-KEY-GOES-HERE'') w;
          w = emit (SetRegion ''NA'') w;
          read_records = 0;
          current_id = start_id
      in case get_match_records_loop get_match filename max_records sleep_time
                read_records current_id w of
           None \<Rightarrow> None
         | Some (r, read_records, current_id, w) \<Rightarrow> Some (r, w))"

section \<open>The driver\<close>

text \<open>
  \<open>argv\<close> is \<^verbatim>\<open>sys.argv\<close>, the program name first. Python's \<^verbatim>\<open>int\<close> on a string is
  the parameter \<open>int_of\<close>, \<open>None\<close> where it raises \<^verbatim>\<open>ValueError\<close>.
  \<^verbatim>\<open>os.path.exists\<close> asks whether the path is in the file system.
\<close>

definition main ::
  "(string \<Rightarrow> int option) \<Rightarrow> (int \<Rightarrow> error + Match) \<Rightarrow> string list \<Rightarrow> world
     \<Rightarrow> ((error + unit) \<times> world) option" where
  "main int_of get_match argv w =
     (if length argv \<noteq> 4
      then Some (Inl (ValueError
             ''Number of arguments given in the command line mismatch the required amount.''), w)
      else
        let filename = argv ! 1 in
        case int_of (argv ! 2) of
          None \<Rightarrow> Some (Inl (ValueError ''Invalid starting match ID or max number of records.''), w)
        | Some start_id \<Rightarrow>
           (case int_of (argv ! 3) of
              None \<Rightarrow>
                Some (Inl (ValueError ''Invalid starting match ID or max number of records.''), w)
            | Some max_records \<Rightarrow>
               (let sleep_time = 3 in
                if files w filename \<noteq> None
                then Some (Inl (OSError (filename @
                       '' already exists. Terminating to prevent data from being overwritten.'')), w)
                else
                  let w = emit (Printed (Creating filename)) w
                  in case get_match_records get_match filename start_id max_records sleep_time w of
                       None \<Rightarrow> None
                     | Some (Inl e, w) \<Rightarrow> Some (Inl e, w)
                     | Some (Inr u, w) \<Rightarrow>
                         Some (Inr (), emit (Printed (Retrieved max_records filename)) w))))"

section \<open>What the specification says, in the terms of the model\<close>

text \<open>
  The acceptance predicate in the words of the specification (section 4.2): the record
  exists and its game mode is classic and its queue is ranked solo fives. The source
  tests the negations, in an \<^verbatim>\<open>if\<close>/\<^verbatim>\<open>elif\<close> chain.
\<close>

definition accepted :: "Match \<Rightarrow> bool" where
  "accepted match \<longleftrightarrow> exists match \<and> mode match = classic \<and> queue match = ranked_solo_fives"

text \<open>
  The output row in the words of the specification (section 4.3): match id, version,
  side name, win flag, one name per ban slot (empty for an absent ban), one champion
  name per participant, the ten statistics.
\<close>

definition output_row :: "Match \<Rightarrow> Team \<Rightarrow> row" where
  "output_row match team =
     [CInt (match_id match), CStr (version match), CStr (side_name (side team)), CBool (win team)]
     @ map (\<lambda>ban. case ban of None \<Rightarrow> CStr '''' | Some c \<Rightarrow> CStr (name c)) (bans team)
     @ map (\<lambda>p. CStr (name (champion p))) (participants team)
     @ [CInt (tower_kills team), CInt (inhibitor_kills team), CInt (dragon_kills team),
        CInt (rift_herald_kills team), CInt (baron_kills team), CBool (first_tower team),
        CBool (first_inhibitor team), CBool (first_dragon team), CBool (first_rift_herald team),
        CBool (first_baron team)]"

text \<open>The two rows of an accepted match: blue, then red.\<close>

definition match_rows :: "Match \<Rightarrow> row list" where
  "match_rows match = [output_row match (blue_team match), output_row match (red_team match)]"

text \<open>
  The identifiers probed by the passes that ran to their end when the loop went from
  \<open>current_id\<close> down to \<open>current_id'\<close>, in the order of the calls, and the accepted
  matches among the answers.
\<close>

definition probed_ids :: "int \<Rightarrow> int \<Rightarrow> int list" where
  "probed_ids current_id current_id' = rev [current_id' + 1..current_id]"

definition accepted_matches :: "(int \<Rightarrow> error + Match) \<Rightarrow> int list \<Rightarrow> Match list" where
  "accepted_matches get_match ids =
     List.map_filter (\<lambda>i. case get_match i of
                              Inl e \<Rightarrow> None
                            | Inr match \<Rightarrow> if accepted match then Some match else None) ids"

text \<open>
  The rows a run writes for a list of accepted matches when it starts with the counter
  \<open>read_records\<close>, and the file system after appending rows to a file (untouched when
  there is nothing to append: the file is only opened by an accepted pass).
\<close>

definition written :: "int \<Rightarrow> Match list \<Rightarrow> row list" where
  "written read_records ms =
     (if ms = [] then []
      else (if read_records = 0 then [header_row] else []) @ concat (map match_rows ms))"

definition appended :: "string \<Rightarrow> row list \<Rightarrow> world \<Rightarrow> (string \<rightharpoonup> row list)" where
  "appended f rs w = (if rs = [] then files w else (files w)(f \<mapsto> file_rows w f @ rs))"

text \<open>What holds of the loop's result \<open>y\<close> when it was entered with \<open>rr\<close>, \<open>c\<close> and \<open>w\<close>.\<close>

definition loop_post ::
  "(int \<Rightarrow> error + Match) \<Rightarrow> string \<Rightarrow> int \<Rightarrow> int \<Rightarrow> int \<Rightarrow> world
     \<Rightarrow> (error + unit) \<times> int \<times> int \<times> world \<Rightarrow> bool" where
  "loop_post svc f mx rr c w y =
     (case y of (out, rr', c', w') \<Rightarrow>
        c' \<le> c \<and>
        rr' = rr + int (length (accepted_matches svc (probed_ids c c'))) \<and>
        files w' = appended f (written rr (accepted_matches svc (probed_ids c c'))) w \<and>
        (out = Inr () \<longrightarrow> mx \<le> rr') \<and>
        (rr \<le> mx \<longrightarrow> rr' \<le> mx))"

section \<open>A concrete scenario\<close>

text \<open>
  The scenario of section 8 of the specification: the service knows no match for the
  identifiers 1000 to 998 and answers 997 with a classic ranked solo match; the file
  system is empty.
\<close>

definition scenario_team :: Team where
  "scenario_team =
     \<lparr>side = blue, win = True,
      bans = [Some \<lparr>name = ''Ahri''\<rparr>, None, Some \<lparr>name = ''Zed''\<rparr>, None, None],
      participants = [\<lparr>champion = \<lparr>name = ''Garen''\<rparr>\<rparr>, \<lparr>champion = \<lparr>name = ''Lux''\<rparr>\<rparr>,
                      \<lparr>champion = \<lparr>name = ''Jinx''\<rparr>\<rparr>, \<lparr>champion = \<lparr>name = ''Thresh''\<rparr>\<rparr>,
                      \<lparr>champion = \<lparr>name = ''Lee Sin''\<rparr>\<rparr>],
      tower_kills = 9, inhibitor_kills = 2, dragon_kills = 3, rift_herald_kills = 1,
      baron_kills = 1, first_tower = True, first_inhibitor = True, first_dragon = False,
      first_rift_herald = True, first_baron = True\<rparr>"

definition scenario_match :: "int \<Rightarrow> Match" where
  "scenario_match i =
     \<lparr>match_id = i, version = ''10.1.303.9385'', exists = True, mode = classic,
      queue = ranked_solo_fives,
      red_team = scenario_team\<lparr>side := red, win := False\<rparr>,
      blue_team = scenario_team\<rparr>"

definition scenario_service :: "int \<Rightarrow> error + Match" where
  "scenario_service i =
     (if i = 997 then Inr (scenario_match i) else Inr ((scenario_match i)\<lparr>exists := False\<rparr>))"

definition empty_world :: world where
  "empty_world = \<lparr>files = Map.empty, unopenable = {}, events = []\<rparr>"

definition scenario_result :: world where
  "scenario_result =
     \<lparr>files = [''out.csv'' \<mapsto> header_row # match_rows (scenario_match 997)],
      unopenable = {},
      events = [SetApiKey ''RGAPI-KEY-GOES-HERE'', SetRegion ''NA'',
                Slept 0, Fetched 1000, Printed (NotExist 1000),
                Slept 0, Fetched 999, Printed (NotExist 999),
                Slept 0, Fetched 998, Printed (NotExist 998),
                Slept 0, Fetched 997, Printed (Added 997 1 1),
                Opened ''out.csv'', Closed ''out.csv'']\<rparr>"

text \<open>A reading of decimal literals that is enough for the command lines used below.\<close>

definition scenario_int :: "string \<Rightarrow> int option" where
  "scenario_int s =
     (if s = ''1000'' then Some 1000 else if s = ''1'' then Some 1
      else if s = ''0'' then Some 0 else None)"

text \<open>
  A match of the seasons with three bans a side: the teams of the scenario with three
  ban slots, and the row that \<^verbatim>\<open>get_team_stats\<close> returns for its blue team.
\<close>

definition three_ban_team :: Team where
  "three_ban_team = scenario_team\<lparr>bans := [Some \<lparr>name = ''Ahri''\<rparr>, None, Some \<lparr>name = ''Zed''\<rparr>]\<rparr>"

definition three_ban_match :: Match where
  "three_ban_match =
     (scenario_match 42)\<lparr>red_team := three_ban_team\<lparr>side := red, win := False\<rparr>,
                        blue_team := three_ban_team\<rparr>"

definition three_ban_row :: row where
  "three_ban_row =
     [CInt 42, CStr ''10.1.303.9385'', CStr ''blue'', CBool True,
      CStr ''Ahri'', CStr '''', CStr ''Zed'',
      CStr ''Garen'', CStr ''Lux'', CStr ''Jinx'', CStr ''Thresh'', CStr ''Lee Sin'',
      CInt 9, CInt 2, CInt 3, CInt 1, CInt 1,
      CBool True, CBool True, CBool False, CBool True, CBool True]"

text \<open>A file system in which the output file already holds a header row.\<close>

definition stale_world :: world where
  "stale_world = \<lparr>files = [''out.csv'' \<mapsto> [header_row]], unopenable = {}, events = []\<rparr>"

text \<open>
  A file system in which the directory \<^verbatim>\<open>nodir\<close> does not exist: the path
  \<^verbatim>\<open>nodir/out.csv\<close> does not exist and cannot be opened.
\<close>

definition nodir_world :: world where
  "nodir_world = \<lparr>files = Map.empty, unopenable = {''nodir/out.csv''}, events = []\<rparr>"

section \<open>Row extraction and single passes\<close>

lemma get_team_stats_blue: "get_team_stats ''blue'' m = Inr (output_row m (blue_team m))"
  by (simp add: get_team_stats_def output_row_def)

lemma get_team_stats_red: "get_team_stats ''red'' m = Inr (output_row m (red_team m))"
  by (simp add: get_team_stats_def output_row_def)

lemma body_sleep_error:
  "st < 0 \<Longrightarrow> get_match_records_body svc fn mx st rr cid w =
     (Inl (ValueError ''sleep length must be non-negative''), rr, cid, w)"
  by (simp add: get_match_records_body_def)

lemma body_remote_error:
  "0 \<le> st \<Longrightarrow> svc cid = Inl e \<Longrightarrow> get_match_records_body svc fn mx st rr cid w =
     (Inl e, rr, cid, w\<lparr>events := events w @ [Slept st, Fetched cid]\<rparr>)"
  by (simp add: get_match_records_body_def emit_def)

lemma body_rejected:
  "0 \<le> st \<Longrightarrow> svc cid = Inr m \<Longrightarrow> \<not> accepted m \<Longrightarrow>
   get_match_records_body svc fn mx st rr cid w =
     (Inr (), rr, cid - 1,
      w\<lparr>events := events w @ [Slept st, Fetched cid,
           Printed (if \<not> exists m then NotExist (match_id m) else NotCriteria (match_id m))]\<rparr>)"
  by (auto simp add: get_match_records_body_def emit_def accepted_def)

lemma body_open_error:
  "0 \<le> st \<Longrightarrow> svc cid = Inr m \<Longrightarrow> accepted m \<Longrightarrow> fn \<in> unopenable w \<Longrightarrow>
   get_match_records_body svc fn mx st rr cid w =
     (Inl (OpenError fn), rr, cid,
      w\<lparr>events := events w @ [Slept st, Fetched cid,
           Printed (Added (match_id m) (rr + 1) mx)]\<rparr>)"
  by (simp add: get_match_records_body_def emit_def accepted_def open_append_def)

lemma body_accepted:
  "0 \<le> st \<Longrightarrow> svc cid = Inr m \<Longrightarrow> accepted m \<Longrightarrow> fn \<notin> unopenable w \<Longrightarrow>
   get_match_records_body svc fn mx st rr cid w =
     (Inr (), rr + 1, cid - 1,
      w\<lparr>files := (files w)(fn \<mapsto> file_rows w fn @ (if rr = 0 then [header_row] else [])
                   @ match_rows m),
        events := events w @ [Slept st, Fetched cid, Printed (Added (match_id m) (rr + 1) mx),
                  Opened fn, Closed fn]\<rparr>)"
  by (simp add: get_match_records_body_def emit_def accepted_def get_team_stats_blue
        get_team_stats_red open_append_def writerow_def close_file_def file_rows_def match_rows_def)

section \<open>The loop\<close>

lemma probed_ids_same: "probed_ids c c = []"
  by (simp add: probed_ids_def)

lemma probed_ids_step: "c' < c \<Longrightarrow> probed_ids c c' = c # probed_ids (c - 1) c'"
  by (simp add: probed_ids_def upto_rec2 [of "c' + 1" c])

lemma accepted_matches_Nil: "accepted_matches svc [] = []"
  by (simp add: accepted_matches_def map_filter_simps)

lemma accepted_matches_error:
  "svc i = Inl e \<Longrightarrow> accepted_matches svc (i # is) = accepted_matches svc is"
  by (simp add: accepted_matches_def map_filter_simps)

lemma accepted_matches_rejected:
  "svc i = Inr m \<Longrightarrow> \<not> accepted m \<Longrightarrow> accepted_matches svc (i # is) = accepted_matches svc is"
  by (simp add: accepted_matches_def map_filter_simps)

lemma accepted_matches_accepted:
  "svc i = Inr m \<Longrightarrow> accepted m \<Longrightarrow> accepted_matches svc (i # is) = m # accepted_matches svc is"
  by (simp add: accepted_matches_def map_filter_simps)

lemma appended_Nil: "appended f [] w = files w"
  by (simp add: appended_def)

lemma match_rows_not_Nil: "match_rows m \<noteq> []"
  by (simp add: match_rows_def)

lemma appended_after_accept:
  assumes "0 \<le> rr"
    and "files w1 = (files w)(f \<mapsto> file_rows w f @ (if rr = 0 then [header_row] else []) @ match_rows m)"
  shows "appended f (written (rr + 1) ms) w1 = appended f (written rr (m # ms)) w"
proof -
  have rows: "file_rows w1 f = file_rows w f @ (if rr = 0 then [header_row] else []) @ match_rows m"
    using assms(2) by (simp add: file_rows_def)
  have "rr + 1 \<noteq> 0" using assms(1) by simp
  then show ?thesis
    using assms(2) rows by (simp add: appended_def written_def match_rows_not_Nil)
qed

lemma loop_post_stop: "\<not> rr < mx \<Longrightarrow> loop_post svc f mx rr c w (Inr (), rr, c, w)"
  by (simp add: loop_post_def probed_ids_same accepted_matches_Nil written_def appended_Nil)

lemma loop_post_raise:
  "files w' = files w \<Longrightarrow> loop_post svc f mx rr c w (Inl e, rr, c, w')"
  by (simp add: loop_post_def probed_ids_same accepted_matches_Nil written_def appended_Nil)

lemma loop_post_rejected:
  assumes "svc c = Inr m" "\<not> accepted m" "files w1 = files w"
    and "loop_post svc f mx rr (c - 1) w1 y"
  shows "loop_post svc f mx rr c w y"
proof -
  obtain out rr' c' w' where y: "y = (out, rr', c', w')" by (cases y) auto
  from assms(4) have "c' < c" by (simp add: loop_post_def y)
  then have "accepted_matches svc (probed_ids c c') = accepted_matches svc (probed_ids (c - 1) c')"
    using assms(1,2) by (simp add: probed_ids_step accepted_matches_rejected)
  moreover have "\<And>rs. appended f rs w1 = appended f rs w"
    using assms(3) by (simp add: appended_def file_rows_def)
  ultimately show ?thesis
    using assms(4) \<open>c' < c\<close> by (auto simp add: loop_post_def y)
qed

lemma loop_post_accepted:
  assumes "svc c = Inr m" "accepted m" "0 \<le> rr" "rr < mx"
    and "files w1 = (files w)(f \<mapsto> file_rows w f @ (if rr = 0 then [header_row] else []) @ match_rows m)"
    and "loop_post svc f mx (rr + 1) (c - 1) w1 y"
  shows "loop_post svc f mx rr c w y"
proof -
  obtain out rr' c' w' where y: "y = (out, rr', c', w')" by (cases y) auto
  from assms(6) have "c' < c" by (simp add: loop_post_def y)
  then have ms: "accepted_matches svc (probed_ids c c') = m # accepted_matches svc (probed_ids (c - 1) c')"
    using assms(1,2) by (simp add: probed_ids_step accepted_matches_accepted)
  show ?thesis
    using assms(4,6) \<open>c' < c\<close>
    by (auto simp add: loop_post_def y ms appended_after_accept [OF assms(3) assms(5)])
qed

lemma loop_result:
  assumes "get_match_records_loop svc f mx st rr c w = Some y"
  shows "0 \<le> rr \<longrightarrow> loop_post svc f mx rr c w y"
proof (rule get_match_records_loop.raw_induct
    [where P = "\<lambda>svc f mx st rr c w y. 0 \<le> rr \<longrightarrow> loop_post svc f mx rr c w y", OF _ assms],
    goal_cases)
  case (1 loop svc f mx st rr c w y)
  note IH = "1"(1) and hyps = "1"(2)
  show ?case
  proof
    assume rr: "0 \<le> rr"
    show "loop_post svc f mx rr c w y"
    proof (cases "rr < mx")
      case False
      with hyps show ?thesis by (auto simp add: loop_post_stop)
    next
      case True
      note lt = this
      show ?thesis
      proof (cases "st < 0")
        case True
        with lt hyps show ?thesis
          by (auto simp add: body_sleep_error intro: loop_post_raise)
      next
        case False
        then have st: "0 \<le> st" by simp
        show ?thesis
        proof (cases "svc c")
          case (Inl e)
          with lt st hyps show ?thesis
            by (auto simp add: body_remote_error intro: loop_post_raise)
        next
          case (Inr m)
          show ?thesis
          proof (cases "accepted m")
            case False
            let ?w1 = "w\<lparr>events := events w @ [Slept st, Fetched c,
                     Printed (if \<not> exists m then NotExist (match_id m) else NotCriteria (match_id m))]\<rparr>"
            from lt hyps st Inr False have call: "loop svc f mx st rr (c - 1) ?w1 = Some y"
              by (simp add: body_rejected)
            have post: "loop_post svc f mx rr (c - 1) ?w1 y"
              by (rule IH [OF call, THEN mp]) (rule rr)
            show ?thesis
              by (rule loop_post_rejected [where m = m and ?w1.0 = ?w1])
                (use Inr False post in simp_all)
          next
            case True
            note acc = this
            show ?thesis
            proof (cases "f \<in> unopenable w")
              case True
              with lt hyps st Inr acc show ?thesis
                by (auto simp add: body_open_error intro: loop_post_raise)
            next
              case False
              let ?w1 = "w\<lparr>files := (files w)(f \<mapsto> file_rows w f
                     @ (if rr = 0 then [header_row] else []) @ match_rows m),
                 events := events w @ [Slept st, Fetched c,
                    Printed (Added (match_id m) (rr + 1) mx), Opened f, Closed f]\<rparr>"
              from lt hyps st Inr acc False
              have call: "loop svc f mx st (rr + 1) (c - 1) ?w1 = Some y"
                by (simp add: body_accepted)
              have post: "loop_post svc f mx (rr + 1) (c - 1) ?w1 y"
                by (rule IH [OF call, THEN mp]) (use rr in simp)
              show ?thesis
                by (rule loop_post_accepted [where m = m and ?w1.0 = ?w1])
                  (use Inr acc rr lt post in simp_all)
            qed
          qed
        qed
      qed
    qed
  qed
qed

section \<open>Properties of the row extraction\<close>

lemmas scenario_defs =
  scenario_team_def scenario_match_def scenario_service_def empty_world_def

text \<open>
  Claim C8. A ban slot that holds \<^verbatim>\<open>None\<close> gives the empty string in the field of
  that slot (field \<open>4 + i\<close> of the row for slot \<open>i\<close>, counted from 0), for the red and
  for the blue team; and a selector other than \<^verbatim>\<open>'red'\<close> and \<^verbatim>\<open>'blue'\<close> makes
  \<^verbatim>\<open>get_team_stats\<close> raise \<^verbatim>\<open>ValueError\<close>, so that no row is returned.
\<close>

theorem empty_ban_and_unknown_team:
  "(team \<noteq> ''red'' \<and> team \<noteq> ''blue'' \<longrightarrow>
      get_team_stats team m =
        Inl (ValueError ''Unknown team color given (must pick 'red' or 'blue').'')) \<and>
   (i < length (bans (red_team m)) \<and> bans (red_team m) ! i = None \<longrightarrow>
      (\<exists>r. get_team_stats ''red'' m = Inr r \<and> r ! (4 + i) = CStr '''')) \<and>
   (i < length (bans (blue_team m)) \<and> bans (blue_team m) ! i = None \<longrightarrow>
      (\<exists>r. get_team_stats ''blue'' m = Inr r \<and> r ! (4 + i) = CStr ''''))"
  by (simp add: get_team_stats_def nth_append)

theorem empty_ban_and_unknown_team_witness:
  "get_team_stats ''green'' (scenario_match 997) =
     Inl (ValueError ''Unknown team color given (must pick 'red' or 'blue').'') \<and>
   (1 < length (bans (red_team (scenario_match 997))) \<and>
    bans (red_team (scenario_match 997)) ! 1 = None) \<and>
   (\<exists>r. get_team_stats ''red'' (scenario_match 997) = Inr r \<and> r ! 5 = CStr '''') \<and>
   (1 < length (bans (blue_team (scenario_match 997))) \<and>
    bans (blue_team (scenario_match 997)) ! 1 = None) \<and>
   (\<exists>r. get_team_stats ''blue'' (scenario_match 997) = Inr r \<and> r ! 5 = CStr '''')"
  using empty_ban_and_unknown_team [of "''green''" "scenario_match 997" 1]
  by (simp add: scenario_defs)

text \<open>
  Claim C9 says that every row has exactly 24 fields, in the order of the 24 names of
  the header. The code does not keep to it: the list comprehensions of
  \<^verbatim>\<open>get_team_stats\<close> give one field per ban slot and one per participant without
  padding to five, so the blue team of a match with three ban slots gives a row of 22
  fields under the header of 24 names that the same program writes, and the first
  champion name stands in the column \<^verbatim>\<open>ban4\<close>.
\<close>

theorem three_ban_row_width:
  "get_team_stats ''blue'' three_ban_match = Inr three_ban_row \<and>
   length three_ban_row = 22 \<and> length header_row = 24 \<and>
   header_row ! 7 = CStr ''ban4'' \<and> three_ban_row ! 7 = CStr ''Garen'' \<and>
   header_row ! 9 = CStr ''champion1''"
  by (simp add: get_team_stats_def three_ban_match_def three_ban_team_def three_ban_row_def
        scenario_defs header_row_def)

text \<open>
  What the code does in general. For the selectors \<^verbatim>\<open>'red'\<close> and
  \<^verbatim>\<open>'blue'\<close> the row is, in this order: match id, version, side name, win flag, one
  name per ban slot, one champion name per participant, then the ten objective statistics
  (tower, inhibitor, dragon, rift-herald and baron kills, and the five
  first-to-accomplish flags). It has 14 fields plus one per ban slot and one per
  participant, so it has the 24 fields of the header exactly when the team has 5 ban
  slots and 5 participants.
\<close>

lemma team_row_layout:
  assumes "team = ''red'' \<and> t = red_team m \<or> team = ''blue'' \<and> t = blue_team m"
  shows "\<exists>r. get_team_stats team m = Inr r \<and>
           r = [CInt (match_id m), CStr (version m), CStr (side_name (side t)), CBool (win t)]
               @ map (\<lambda>ban. case ban of None \<Rightarrow> CStr '''' | Some c \<Rightarrow> CStr (name c)) (bans t)
               @ map (\<lambda>p. CStr (name (champion p))) (participants t)
               @ [CInt (tower_kills t), CInt (inhibitor_kills t), CInt (dragon_kills t),
                  CInt (rift_herald_kills t), CInt (baron_kills t), CBool (first_tower t),
                  CBool (first_inhibitor t), CBool (first_dragon t),
                  CBool (first_rift_herald t), CBool (first_baron t)] \<and>
           length r = 14 + length (bans t) + length (participants t) \<and>
           (length (bans t) = 5 \<and> length (participants t) = 5 \<longrightarrow> length r = 24)"
  using assms by (auto simp add: get_team_stats_def)

lemma team_row_layout_scenario:
  "\<exists>r. get_team_stats ''red'' (scenario_match 997) = Inr r \<and>
       length r = 24 \<and> r ! 0 = CInt 997 \<and> r ! 2 = CStr ''red'' \<and> r ! 9 = CStr ''Garen'' \<and>
       r ! 14 = CInt 9 \<and> r ! 23 = CBool True"
  using team_row_layout [of "''red''" "red_team (scenario_match 997)" "scenario_match 997"]
  by (simp add: scenario_defs)

section \<open>Properties of a single pass of the loop\<close>

text \<open>
  A pass of the loop ends in one of five ways: \<^verbatim>\<open>time.sleep\<close> raises, the remote
  call raises, the record is rejected, the record passes the filter and \<^verbatim>\<open>open\<close>
  raises, the record passes the filter and its rows are written.
\<close>

lemma body_cases:
  obtains (sleep_error) "st < 0"
      "get_match_records_body svc fn mx st rr c w =
         (Inl (ValueError ''sleep length must be non-negative''), rr, c, w)"
  | (remote_error) e where "0 \<le> st" "svc c = Inl e"
      "get_match_records_body svc fn mx st rr c w =
         (Inl e, rr, c, w\<lparr>events := events w @ [Slept st, Fetched c]\<rparr>)"
  | (rejected) m where "0 \<le> st" "svc c = Inr m" "\<not> accepted m"
      "get_match_records_body svc fn mx st rr c w =
         (Inr (), rr, c - 1,
          w\<lparr>events := events w @ [Slept st, Fetched c,
             Printed (if \<not> exists m then NotExist (match_id m) else NotCriteria (match_id m))]\<rparr>)"
  | (open_error) m where "0 \<le> st" "svc c = Inr m" "accepted m" "fn \<in> unopenable w"
      "get_match_records_body svc fn mx st rr c w =
         (Inl (OpenError fn), rr, c,
          w\<lparr>events := events w @ [Slept st, Fetched c,
             Printed (Added (match_id m) (rr + 1) mx)]\<rparr>)"
  | (accepted) m where "0 \<le> st" "svc c = Inr m" "accepted m" "fn \<notin> unopenable w"
      "get_match_records_body svc fn mx st rr c w =
         (Inr (), rr + 1, c - 1,
          w\<lparr>files := (files w)(fn \<mapsto> file_rows w fn @ (if rr = 0 then [header_row] else [])
                       @ match_rows m),
            events := events w @ [Slept st, Fetched c, Printed (Added (match_id m) (rr + 1) mx),
                      Opened fn, Closed fn]\<rparr>)"
proof (cases "st < 0")
  case True
  then show ?thesis by (intro sleep_error) (simp_all add: body_sleep_error)
next
  case False
  then have st: "0 \<le> st" by simp
  show ?thesis
  proof (cases "svc c")
    case (Inl e)
    show ?thesis by (rule remote_error [OF st Inl]) (simp add: body_remote_error st Inl)
  next
    case (Inr m)
    show ?thesis
    proof (cases "accepted m")
      case True
      note acc = this
      show ?thesis
      proof (cases "fn \<in> unopenable w")
        case True
        show ?thesis
          by (rule open_error [OF st Inr acc True]) (simp add: body_open_error st Inr acc True)
      next
        case False
        show ?thesis
          by (rule accepted [OF st Inr acc False]) (simp add: body_accepted st Inr acc False)
      qed
    next
      case False
      show ?thesis by (rule rejected [OF st Inr False]) (simp add: body_rejected st Inr False)
    qed
  qed
qed

lemmas world_defs =
  emit_def open_append_def writerow_def close_file_def file_rows_def

lemma prod4_collapse: "x = (fst x, fst (snd x), fst (snd (snd x)), snd (snd (snd x)))"
  by simp

text \<open>
  Claim C2. A pass that runs to its end decrements \<^verbatim>\<open>current_id\<close> by exactly 1,
  whether the record was accepted or rejected, and increments \<^verbatim>\<open>read_records\<close> by 1
  exactly when the record was accepted. A pass that is cut short by an exception changes
  neither variable.
\<close>

theorem pass_updates_counters:
  assumes "get_match_records_body svc fn mx st rr c w = (out, rr', c', w')"
  shows "(out = Inr () \<longrightarrow>
            c' = c - 1 \<and> (\<exists>m. svc c = Inr m \<and> rr' = (if accepted m then rr + 1 else rr))) \<and>
         (out \<noteq> Inr () \<longrightarrow> c' = c \<and> rr' = rr)"
  using assms by (cases rule: body_cases [where st = st and svc = svc and c = c and fn = fn
        and mx = mx and rr = rr and w = w]) auto

theorem pass_updates_counters_witness:
  "(case get_match_records_body scenario_service ''out.csv'' 1 0 0 997 empty_world of
      (out, rr', c', w') \<Rightarrow> out = Inr () \<and> rr' = 1 \<and> c' = 996) \<and>
   (case get_match_records_body scenario_service ''out.csv'' 1 0 0 1000 empty_world of
      (out, rr', c', w') \<Rightarrow> out = Inr () \<and> rr' = 0 \<and> c' = 999) \<and>
   (case get_match_records_body scenario_service ''out.csv'' 1 (- 1) 0 1000 empty_world of
      (out, rr', c', w') \<Rightarrow> out \<noteq> Inr () \<and> rr' = 0 \<and> c' = 1000)"
  using
    pass_updates_counters [OF prod4_collapse
      [of "get_match_records_body scenario_service ''out.csv'' 1 0 0 997 empty_world"]]
    pass_updates_counters [OF prod4_collapse
      [of "get_match_records_body scenario_service ''out.csv'' 1 0 0 1000 empty_world"]]
    pass_updates_counters [OF prod4_collapse
      [of "get_match_records_body scenario_service ''out.csv'' 1 (- 1) 0 1000 empty_world"]]
  by (simp add: get_match_records_body_def get_team_stats_def scenario_defs world_defs
        accepted_def split_beta)

text \<open>
  Claim C4. \<open>m\<close> is the match that the service holds for the identifier of the pass.
  When the pass runs to its end: if \<open>m\<close> exists, its mode is classic and its queue is
  ranked solo fives, then the rows that \<^verbatim>\<open>get_team_stats\<close> returns for the blue and
  the red team have been appended to the file (after the header, on the first accepted
  record) and the counter has gone up by one; and the file system has changed if and only
  if the three conditions hold. Whether the pass runs to its end or not: a match that
  fails one of the three conditions leaves the counter and the file system as they were,
  and a change of the file system or of the counter only comes from a pass that ran to
  its end on a match that meets all three.
\<close>

theorem accepted_iff_filter:
  assumes "svc c = Inr m"
    and "get_match_records_body svc fn mx st rr c w = (out, rr', c', w')"
  shows "(out = Inr () \<longrightarrow>
            (exists m \<and> mode m = classic \<and> queue m = ranked_solo_fives \<longrightarrow>
               rr' = rr + 1 \<and>
               (\<exists>b r. get_team_stats ''blue'' m = Inr b \<and> get_team_stats ''red'' m = Inr r \<and>
                  files w' = (files w)(fn \<mapsto> file_rows w fn
                               @ (if rr = 0 then [header_row] else []) @ [b, r]))) \<and>
            ((files w' \<noteq> files w) =
               (exists m \<and> mode m = classic \<and> queue m = ranked_solo_fives))) \<and>
         (\<not> (exists m \<and> mode m = classic \<and> queue m = ranked_solo_fives) \<longrightarrow>
            rr' = rr \<and> files w' = files w) \<and>
         (files w' \<noteq> files w \<or> rr' \<noteq> rr \<longrightarrow>
            out = Inr () \<and> exists m \<and> mode m = classic \<and> queue m = ranked_solo_fives)"
proof -
  have neq: "(files w)(fn \<mapsto> file_rows w fn @ (if rr = 0 then [header_row] else []) @ match_rows m)
               \<noteq> files w"
  proof
    assume "(files w)(fn \<mapsto> file_rows w fn @ (if rr = 0 then [header_row] else []) @ match_rows m)
              = files w"
    then have "files w fn = Some (file_rows w fn @ (if rr = 0 then [header_row] else []) @ match_rows m)"
      by (metis fun_upd_same)
    then show False by (cases "files w fn") (simp_all add: file_rows_def match_rows_def)
  qed
  show ?thesis
  proof (cases rule: body_cases [where st = st and svc = svc and c = c and fn = fn
        and mx = mx and rr = rr and w = w])
    case sleep_error
    with assms show ?thesis by auto
  next
    case (remote_error e)
    with assms show ?thesis by auto
  next
    case (rejected m')
    with assms show ?thesis by (auto simp add: accepted_def)
  next
    case (open_error m')
    with assms show ?thesis by (auto simp add: accepted_def)
  next
    case (accepted m')
    with assms have "m' = m" by simp
    with accepted assms neq show ?thesis
      by (auto simp add: accepted_def get_team_stats_blue get_team_stats_red match_rows_def)
  qed
qed

theorem accepted_iff_filter_witness:
  "scenario_service 997 = Inr (scenario_match 997) \<and>
   fst (get_match_records_body scenario_service ''out.csv'' 1 0 0 997 empty_world) = Inr () \<and>
   files (snd (snd (snd (get_match_records_body scenario_service ''out.csv'' 1 0 0 997
            empty_world)))) ''out.csv''
     = Some (header_row # match_rows (scenario_match 997)) \<and>
   files (snd (snd (snd (get_match_records_body scenario_service ''out.csv'' 1 0 0 1000
            empty_world))))
     = files empty_world \<and>
   files (snd (snd (snd (get_match_records_body
            (\<lambda>i. Inr ((scenario_match i)\<lparr>mode := other_mode ''aram''\<rparr>)) ''out.csv'' 1 0 0 997
            empty_world))))
     = files empty_world \<and>
   files (snd (snd (snd (get_match_records_body
            (\<lambda>i. Inr ((scenario_match i)\<lparr>queue := other_queue ''normal_draft_fives''\<rparr>))
            ''out.csv'' 1 0 0 997 empty_world))))
     = files empty_world \<and>
   fst (get_match_records_body scenario_service ''nodir/out.csv'' 1 0 0 997 nodir_world)
     = Inl (OpenError ''nodir/out.csv'') \<and>
   files (snd (snd (snd (get_match_records_body scenario_service ''nodir/out.csv'' 1 0 0 997
            nodir_world))))
     = files nodir_world"
  using
    accepted_iff_filter [OF _ prod4_collapse
      [of "get_match_records_body scenario_service ''out.csv'' 1 0 0 997 empty_world"],
      of "scenario_match 997"]
    accepted_iff_filter [OF _ prod4_collapse
      [of "get_match_records_body scenario_service ''out.csv'' 1 0 0 1000 empty_world"],
      of "(scenario_match 1000)\<lparr>exists := False\<rparr>"]
    accepted_iff_filter [OF _ prod4_collapse
      [of "get_match_records_body (\<lambda>i. Inr ((scenario_match i)\<lparr>mode := other_mode ''aram''\<rparr>))
            ''out.csv'' 1 0 0 997 empty_world"],
      of "(scenario_match 997)\<lparr>mode := other_mode ''aram''\<rparr>"]
    accepted_iff_filter [OF _ prod4_collapse
      [of "get_match_records_body
            (\<lambda>i. Inr ((scenario_match i)\<lparr>queue := other_queue ''normal_draft_fives''\<rparr>))
            ''out.csv'' 1 0 0 997 empty_world"],
      of "(scenario_match 997)\<lparr>queue := other_queue ''normal_draft_fives''\<rparr>"]
    accepted_iff_filter [OF _ prod4_collapse
      [of "get_match_records_body scenario_service ''nodir/out.csv'' 1 0 0 997 nodir_world"],
      of "scenario_match 997"]
  by (simp add: get_match_records_body_def get_team_stats_def scenario_defs world_defs
        nodir_world_def match_rows_def output_row_def)

text \<open>
  Claim C10. \<open>new\<close> is what a pass adds to the log of events. The pass opens a file
  if and only if it fetched an accepted record and the output path can be opened, and the
  file it opens is the output file; when it did not fetch an accepted record (the record
  was rejected, or an exception came first), the file system is left as it was and the
  log shows neither an opening nor a closing of any file.
\<close>

theorem rejected_pass_leaves_file:
  assumes "get_match_records_body svc fn mx st rr c w = (out, rr', c', w')"
  shows "\<exists>new. events w' = events w @ new \<and>
           ((\<exists>f. Opened f \<in> set new) =
              (0 \<le> st \<and> (\<exists>m. svc c = Inr m \<and> accepted m) \<and> fn \<notin> unopenable w)) \<and>
           (\<forall>f. Opened f \<in> set new \<longrightarrow> f = fn) \<and>
           (\<not> (0 \<le> st \<and> (\<exists>m. svc c = Inr m \<and> accepted m)) \<longrightarrow>
              files w' = files w \<and> (\<forall>f. Opened f \<notin> set new \<and> Closed f \<notin> set new))"
  using assms by (cases rule: body_cases [where st = st and svc = svc and c = c and fn = fn
        and mx = mx and rr = rr and w = w]) auto

theorem rejected_pass_leaves_file_witness:
  "files (snd (snd (snd (get_match_records_body scenario_service ''out.csv'' 1 0 0 1000
            empty_world)))) = files empty_world \<and>
   events (snd (snd (snd (get_match_records_body scenario_service ''out.csv'' 1 0 0 1000
            empty_world)))) = [Slept 0, Fetched 1000, Printed (NotExist 1000)] \<and>
   Opened ''out.csv'' \<in> set (events (snd (snd (snd (get_match_records_body scenario_service
            ''out.csv'' 1 0 0 997 empty_world))))) \<and>
   events (snd (snd (snd (get_match_records_body scenario_service ''nodir/out.csv'' 1 0 0 997
            nodir_world)))) = [Slept 0, Fetched 997, Printed (Added 997 1 1)]"
  using
    rejected_pass_leaves_file [OF prod4_collapse
      [of "get_match_records_body scenario_service ''out.csv'' 1 0 0 1000 empty_world"]]
    rejected_pass_leaves_file [OF prod4_collapse
      [of "get_match_records_body scenario_service ''out.csv'' 1 0 0 997 empty_world"]]
    rejected_pass_leaves_file [OF prod4_collapse
      [of "get_match_records_body scenario_service ''nodir/out.csv'' 1 0 0 997 nodir_world"]]
  by (simp add: get_match_records_body_def get_team_stats_def scenario_defs world_defs
        accepted_def nodir_world_def)

section \<open>Runs that make no pass\<close>

text \<open>
  Claim C3 says that with \<^verbatim>\<open>max_records = 0\<close> the output file is still created.
  The file is only ever opened inside the branch of an accepted record, and with
  \<^verbatim>\<open>max_records = 0\<close> the loop condition is false at once: in the scenario, the run
  ends normally and the file system still has no \<^verbatim>\<open>out.csv\<close>.
\<close>

theorem zero_records_file_absent:
  "get_match_records scenario_service ''out.csv'' 1000 0 3 empty_world =
     Some (Inr (), empty_world\<lparr>events := [SetApiKey ''RGAPI-KEY-GOES-HERE'', SetRegion ''NA'']\<rparr>) \<and>
   files (empty_world\<lparr>events := [SetApiKey ''RGAPI-KEY-GOES-HERE'', SetRegion ''NA'']\<rparr>)
     ''out.csv'' = None"
  by (simp add: get_match_records_def get_match_records_loop.simps emit_def empty_world_def)

text \<open>
  Claim C3, amended. With \<^verbatim>\<open>max_records = 0\<close> the run of \<^verbatim>\<open>get_match_records\<close>
  ends normally without a single pass of the loop: it sets the API key and the region and
  does nothing else. No remote call is made, no row is written and the file system is
  left as it was, so an output file that did not exist is not created.
\<close>

theorem zero_records_no_pass:
  "get_match_records svc fn start_id 0 st w =
     Some (Inr (), w\<lparr>events := events w @ [SetApiKey ''RGAPI-KEY-GOES-HERE'', SetRegion ''NA'']\<rparr>) \<and>
   files (w\<lparr>events := events w @ [SetApiKey ''RGAPI-KEY-GOES-HERE'', SetRegion ''NA'']\<rparr>)
     = files w"
  by (simp add: get_match_records_def get_match_records_loop.simps emit_def)

text \<open>
  Claim C7. \<^verbatim>\<open>main\<close> raises \<^verbatim>\<open>ValueError\<close> (argument count) when
  \<^verbatim>\<open>sys.argv\<close> does not hold the program name and exactly 3 arguments; otherwise it
  raises \<^verbatim>\<open>ValueError\<close> (invalid id or number) when the second or the third argument
  is not an integer; otherwise it raises \<^verbatim>\<open>OSError\<close> (already exists) when the
  output path exists. The checks are made in this order. In each case the world is
  returned as it was: no remote call, no message, nothing written.
\<close>

theorem usage_errors:
  "(length argv \<noteq> 4 \<longrightarrow>
      main int_of svc argv w =
        Some (Inl (ValueError
          ''Number of arguments given in the command line mismatch the required amount.''), w)) \<and>
   (length argv = 4 \<and> (int_of (argv ! 2) = None \<or> int_of (argv ! 3) = None) \<longrightarrow>
      main int_of svc argv w =
        Some (Inl (ValueError ''Invalid starting match ID or max number of records.''), w)) \<and>
   (length argv = 4 \<and> int_of (argv ! 2) \<noteq> None \<and> int_of (argv ! 3) \<noteq> None \<and>
    files w (argv ! 1) \<noteq> None \<longrightarrow>
      main int_of svc argv w =
        Some (Inl (OSError (argv ! 1 @
          '' already exists. Terminating to prevent data from being overwritten.'')), w))"
  by (auto simp add: main_def Let_def split: option.splits)

theorem usage_errors_witness:
  "main scenario_int scenario_service [''retrieve_matches.py'', ''out.csv'', ''1000''] empty_world =
     Some (Inl (ValueError
       ''Number of arguments given in the command line mismatch the required amount.''),
       empty_world) \<and>
   main scenario_int scenario_service [''retrieve_matches.py'', ''out.csv'', ''12x'', ''1'']
       empty_world =
     Some (Inl (ValueError ''Invalid starting match ID or max number of records.''), empty_world) \<and>
   main scenario_int scenario_service [''retrieve_matches.py'', ''out.csv'', ''1000'', ''one'']
       scenario_result =
     Some (Inl (ValueError ''Invalid starting match ID or max number of records.''),
       scenario_result) \<and>
   main scenario_int scenario_service [''retrieve_matches.py'', ''out.csv'', ''1000'', ''1'']
       scenario_result =
     Some (Inl (OSError
       ''out.csv already exists. Terminating to prevent data from being overwritten.''),
       scenario_result)"
  using
    usage_errors [of "[''retrieve_matches.py'', ''out.csv'', ''1000'']" scenario_int
      scenario_service empty_world]
    usage_errors [of "[''retrieve_matches.py'', ''out.csv'', ''12x'', ''1'']" scenario_int
      scenario_service empty_world]
    usage_errors [of "[''retrieve_matches.py'', ''out.csv'', ''1000'', ''one'']" scenario_int
      scenario_service scenario_result]
    usage_errors [of "[''retrieve_matches.py'', ''out.csv'', ''1000'', ''1'']" scenario_int
      scenario_service scenario_result]
  by (simp add: scenario_int_def scenario_result_def)

section \<open>Properties of whole runs\<close>

text \<open>
  What a run of \<^verbatim>\<open>get_match_records\<close> that ends, normally or by an exception, has
  done to the file system: it has probed the identifiers from \<open>start\<close> down to some
  \<open>c' + 1\<close> and appended the header and the rows of the accepted matches among them.
\<close>

lemma appended_emit: "appended f rs (emit e w) = appended f rs w"
  by (simp add: appended_def emit_def file_rows_def)

lemma get_match_records_result:
  assumes "get_match_records svc f start mx st w = Some (out, w')"
  shows "\<exists>c'. c' \<le> start \<and>
           files w' = appended f (written 0 (accepted_matches svc (probed_ids start c'))) w \<and>
           (out = Inr () \<longrightarrow> mx \<le> int (length (accepted_matches svc (probed_ids start c')))) \<and>
           (0 \<le> mx \<longrightarrow> int (length (accepted_matches svc (probed_ids start c'))) \<le> mx)"
proof -
  let ?w0 = "emit (SetRegion ''NA'') (emit (SetApiKey ''RGAPI-KEY-GOES-HERE'') w)"
  from assms obtain rr' c' where
    loop: "get_match_records_loop svc f mx st 0 start ?w0 = Some (out, rr', c', w')"
    by (auto simp add: get_match_records_def Let_def split: option.splits)
  have "loop_post svc f mx 0 start ?w0 (out, rr', c', w')"
    using loop_result [OF loop] by simp
  then show ?thesis
    by (auto simp add: loop_post_def appended_emit)
qed

lemma output_row_not_header: "header_row \<noteq> output_row m t"
  by (simp add: output_row_def header_row_def)

lemma header_not_in_rows: "header_row \<notin> set (concat (map match_rows ms))"
  using output_row_not_header by (auto simp add: match_rows_def)

lemma length_rows: "length (concat (map match_rows ms)) = 2 * length ms"
  by (induction ms) (simp_all add: match_rows_def)

lemma accepted_matches_sound:
  "m \<in> set (accepted_matches svc ids) \<Longrightarrow> accepted m \<and> (\<exists>i \<in> set ids. svc i = Inr m)"
proof (induction ids)
  case Nil
  then show ?case by (simp add: accepted_matches_Nil)
next
  case (Cons i ids)
  show ?case
  proof (cases "svc i")
    case (Inl e)
    with Cons show ?thesis by (auto simp add: accepted_matches_error)
  next
    case (Inr m')
    show ?thesis
    proof (cases "accepted m'")
      case True
      with Cons Inr show ?thesis by (auto simp add: accepted_matches_accepted)
    next
      case False
      with Cons Inr show ?thesis by (auto simp add: accepted_matches_rejected)
    qed
  qed
qed

lemma probed_ids_range: "i \<in> set (probed_ids c c') \<Longrightarrow> c' < i \<and> i \<le> c"
  by (simp add: probed_ids_def)

text \<open>
  The scenario runs to its end after four remote calls and leaves the header and the two
  rows of match 997; started on a file that already holds a header, the same run writes
  a second one.
\<close>

lemmas run_defs =
  get_match_records_def get_match_records_loop.simps get_match_records_body_def
  get_team_stats_def

lemma scenario_run:
  "get_match_records scenario_service ''out.csv'' 1000 1 0 empty_world =
     Some (Inr (), scenario_result)"
  by (simp add: run_defs scenario_defs world_defs scenario_result_def match_rows_def
        output_row_def)

lemma stale_run:
  "get_match_records scenario_service ''out.csv'' 1000 1 0 stale_world =
     Some (Inr (), scenario_result\<lparr>files :=
       [''out.csv'' \<mapsto> header_row # header_row # match_rows (scenario_match 997)]\<rparr>)"
  by (simp add: run_defs scenario_defs world_defs scenario_result_def match_rows_def
        output_row_def stale_world_def)

text \<open>
  Claim C1. A run of \<^verbatim>\<open>get_match_records\<close> that ends normally with
  \<^verbatim>\<open>max_records \<ge> 1\<close> has appended to the output file exactly one header row
  followed by \<open>2 * max_records\<close> data rows, none of which is the header. When the file
  did not exist before the run, which \<^verbatim>\<open>main\<close> makes sure of, the file holds exactly
  these \<open>1 + 2 * max_records\<close> rows.
\<close>

theorem successful_run_row_count:
  assumes run: "get_match_records svc f start mx st w = Some (Inr (), w')"
    and mx: "1 \<le> mx"
  shows "\<exists>data. files w' f = Some (file_rows w f @ header_row # data) \<and>
           int (length data) = 2 * mx \<and> header_row \<notin> set data \<and>
           (files w f = None \<longrightarrow>
              files w' f = Some (header_row # data) \<and>
              int (length (header_row # data)) = 1 + 2 * mx)"
proof -
  from get_match_records_result [OF run] obtain c' where
    files: "files w' = appended f (written 0 (accepted_matches svc (probed_ids start c'))) w"
    and lower: "mx \<le> int (length (accepted_matches svc (probed_ids start c')))"
    and upper: "int (length (accepted_matches svc (probed_ids start c'))) \<le> mx"
    using mx by auto
  let ?ms = "accepted_matches svc (probed_ids start c')"
  let ?data = "concat (map match_rows ?ms)"
  from lower upper have len: "int (length ?ms) = mx" by simp
  with mx have ne: "?ms \<noteq> []" by auto
  have "files w' f = Some (file_rows w f @ header_row # ?data)"
    using files ne by (simp add: appended_def written_def)
  moreover have "int (length ?data) = 2 * mx"
    using len by (simp add: length_rows)
  moreover have "header_row \<notin> set ?data" by (rule header_not_in_rows)
  moreover have "files w f = None \<longrightarrow> file_rows w f = []" by (simp add: file_rows_def)
  ultimately show ?thesis by (intro exI [of _ ?data]) auto
qed

theorem successful_run_row_count_witness:
  "get_match_records scenario_service ''out.csv'' 1000 1 0 empty_world =
     Some (Inr (), scenario_result) \<and>
   (1::int) \<le> 1 \<and> files empty_world ''out.csv'' = None \<and>
   (\<exists>data. files scenario_result ''out.csv'' = Some (header_row # data) \<and>
      length data = 2 \<and> header_row \<notin> set data)"
  using successful_run_row_count [OF scenario_run] scenario_run
  by (auto simp add: empty_world_def file_rows_def)

text \<open>
  Claim C5. A run that ends, normally or by an exception, has either appended the header
  followed by at least one data row, none of them a header, or it has left the file
  system as it was; the second case is excluded for a run that ends normally with
  \<^verbatim>\<open>max_records \<ge> 1\<close>. So the header is written once, before any data row. The
  decision is taken on the counter alone: an accepted pass that runs to its end, started
  with the counter \<open>rr\<close> on any world \<open>v\<close>, has written the header if and only if
  \<open>rr = 0\<close>, whatever the file held.
\<close>

theorem header_written_once:
  assumes run: "get_match_records svc f start mx st w = Some (out, w')"
  shows "((\<exists>data. data \<noteq> [] \<and> header_row \<notin> set data \<and>
             files w' = (files w)(f \<mapsto> file_rows w f @ header_row # data)) \<or>
          (files w' = files w \<and> (out = Inr () \<longrightarrow> mx \<le> 0))) \<and>
         (get_match_records_body svc f mx st rr c v = (Inr (), rr', c', v') \<and>
          svc c = Inr m \<and> accepted m \<longrightarrow>
            file_rows v' f =
              file_rows v f @ (if rr = 0 then [header_row] else []) @ match_rows m)"
proof
  from get_match_records_result [OF run] obtain c' where
    files: "files w' = appended f (written 0 (accepted_matches svc (probed_ids start c'))) w"
    and lower: "out = Inr () \<longrightarrow> mx \<le> int (length (accepted_matches svc (probed_ids start c')))"
    by auto
  let ?ms = "accepted_matches svc (probed_ids start c')"
  show "(\<exists>data. data \<noteq> [] \<and> header_row \<notin> set data \<and>
             files w' = (files w)(f \<mapsto> file_rows w f @ header_row # data)) \<or>
          (files w' = files w \<and> (out = Inr () \<longrightarrow> mx \<le> 0))"
  proof (cases "?ms = []")
    case True
    with files lower show ?thesis by (simp add: written_def appended_def)
  next
    case False
    then have "concat (map match_rows ?ms) \<noteq> []"
      by (cases ?ms) (simp_all add: match_rows_def)
    moreover have "files w' = (files w)(f \<mapsto> file_rows w f @ header_row # concat (map match_rows ?ms))"
      using files False by (simp add: written_def appended_def)
    ultimately show ?thesis using header_not_in_rows by blast
  qed
next
  show "get_match_records_body svc f mx st rr c v = (Inr (), rr', c', v') \<and>
          svc c = Inr m \<and> accepted m \<longrightarrow>
            file_rows v' f =
              file_rows v f @ (if rr = 0 then [header_row] else []) @ match_rows m"
  proof
    assume a: "get_match_records_body svc f mx st rr c v = (Inr (), rr', c', v') \<and>
          svc c = Inr m \<and> accepted m"
    then show "file_rows v' f =
              file_rows v f @ (if rr = 0 then [header_row] else []) @ match_rows m"
      by (cases rule: body_cases [where st = st and svc = svc and c = c and fn = f
            and mx = mx and rr = rr and w = v]) (auto simp add: file_rows_def)
  qed
qed

theorem header_written_once_witness:
  "get_match_records scenario_service ''out.csv'' 1000 1 0 stale_world =
     Some (Inr (), scenario_result\<lparr>files :=
       [''out.csv'' \<mapsto> header_row # header_row # match_rows (scenario_match 997)]\<rparr>) \<and>
   (\<exists>data. data \<noteq> [] \<and> header_row \<notin> set data \<and>
      files (scenario_result\<lparr>files :=
         [''out.csv'' \<mapsto> header_row # header_row # match_rows (scenario_match 997)]\<rparr>) =
        (files stale_world)(''out.csv'' \<mapsto> file_rows stale_world ''out.csv'' @ header_row # data)) \<and>
   file_rows (snd (snd (snd (get_match_records_body scenario_service ''out.csv'' 1 0 1 997
      empty_world)))) ''out.csv'' = match_rows (scenario_match 997)"
proof -
  let ?b = "get_match_records_body scenario_service ''out.csv'' 1 0 1 997 empty_world"
  let ?w' = "scenario_result\<lparr>files :=
       [''out.csv'' \<mapsto> header_row # header_row # match_rows (scenario_match 997)]\<rparr>"
  have body: "?b = (Inr (), 2, 996, snd (snd (snd ?b)))"
    by (simp add: get_match_records_body_def get_team_stats_def scenario_defs world_defs)
  have svc: "scenario_service 997 = Inr (scenario_match 997)"
    by (simp add: scenario_service_def)
  have acc: "accepted (scenario_match 997)"
    by (simp add: accepted_def scenario_match_def)
  note once = header_written_once [OF stale_run, where c = 997 and m = "scenario_match 997"
      and rr = 1 and v = empty_world and rr' = 2 and c' = 996 and v' = "snd (snd (snd ?b))"]
  have changed: "files ?w' \<noteq> files stale_world"
  proof
    assume "files ?w' = files stale_world"
    then have "files ?w' ''out.csv'' = files stale_world ''out.csv''" by simp
    then show False by (simp add: stale_world_def)
  qed
  from once changed
  have "\<exists>data. data \<noteq> [] \<and> header_row \<notin> set data \<and>
      files ?w' = (files stale_world)(''out.csv'' \<mapsto>
        file_rows stale_world ''out.csv'' @ header_row # data)"
    by blast
  moreover from once body svc acc
  have "file_rows (snd (snd (snd ?b))) ''out.csv'' =
      file_rows empty_world ''out.csv'' @ (if (1::int) = 0 then [header_row] else [])
        @ match_rows (scenario_match 997)"
    by blast
  then have "file_rows (snd (snd (snd ?b))) ''out.csv'' = match_rows (scenario_match 997)"
    by (simp add: file_rows_def empty_world_def)
  ultimately show ?thesis using stale_run by simp
qed

text \<open>
  Claim C6. After a run that ends, the file holds what it held before, then (if any
  match was accepted) the header, then for each accepted match, in the order of the
  calls, the row that \<^verbatim>\<open>get_team_stats\<close> returns for \<^verbatim>\<open>'blue'\<close> immediately
  followed by the row it returns for \<^verbatim>\<open>'red'\<close>. The accepted matches are the answers
  of the service for the identifiers from \<open>start\<close> down to \<open>c' + 1\<close> that pass the
  filter; there are \<^verbatim>\<open>max_records\<close> of them when the run ends normally.
\<close>

theorem blue_row_before_red_row:
  assumes run: "get_match_records svc f start mx st w = Some (out, w')"
  shows "\<exists>c' ms. c' \<le> start \<and> ms = accepted_matches svc (probed_ids start c') \<and>
           file_rows w' f = file_rows w f @
             (if ms = [] then []
              else header_row #
                concat (map (\<lambda>m. [output_row m (blue_team m), output_row m (red_team m)]) ms)) \<and>
           (\<forall>m \<in> set ms. accepted m \<and> (\<exists>i. c' < i \<and> i \<le> start \<and> svc i = Inr m) \<and>
              get_team_stats ''blue'' m = Inr (output_row m (blue_team m)) \<and>
              get_team_stats ''red'' m = Inr (output_row m (red_team m))) \<and>
           (out = Inr () \<and> 0 \<le> mx \<longrightarrow> int (length ms) = mx)"
proof -
  from get_match_records_result [OF run] obtain c' where c': "c' \<le> start"
    and files: "files w' = appended f (written 0 (accepted_matches svc (probed_ids start c'))) w"
    and lower: "out = Inr () \<longrightarrow> mx \<le> int (length (accepted_matches svc (probed_ids start c')))"
    and upper: "0 \<le> mx \<longrightarrow> int (length (accepted_matches svc (probed_ids start c'))) \<le> mx"
    by auto
  let ?ms = "accepted_matches svc (probed_ids start c')"
  have rows: "file_rows w' f = file_rows w f @
             (if ?ms = [] then []
              else header_row #
                concat (map (\<lambda>m. [output_row m (blue_team m), output_row m (red_team m)]) ?ms))"
    using files by (simp add: file_rows_def appended_def written_def match_rows_def [abs_def])
  have each: "\<forall>m \<in> set ?ms. accepted m \<and> (\<exists>i. c' < i \<and> i \<le> start \<and> svc i = Inr m) \<and>
              get_team_stats ''blue'' m = Inr (output_row m (blue_team m)) \<and>
              get_team_stats ''red'' m = Inr (output_row m (red_team m))"
    using accepted_matches_sound probed_ids_range
    by (fastforce simp add: get_team_stats_blue get_team_stats_red)
  from lower upper have "out = Inr () \<and> 0 \<le> mx \<longrightarrow> int (length ?ms) = mx" by auto
  with c' rows each show ?thesis by blast
qed

theorem blue_row_before_red_row_witness:
  "get_match_records scenario_service ''out.csv'' 1000 1 0 empty_world =
     Some (Inr (), scenario_result) \<and>
   file_rows scenario_result ''out.csv'' =
     [header_row, output_row (scenario_match 997) (blue_team (scenario_match 997)),
      output_row (scenario_match 997) (red_team (scenario_match 997))] \<and>
   get_team_stats ''blue'' (scenario_match 997) =
     Inr (output_row (scenario_match 997) (blue_team (scenario_match 997))) \<and>
   get_team_stats ''red'' (scenario_match 997) =
     Inr (output_row (scenario_match 997) (red_team (scenario_match 997)))"
  using blue_row_before_red_row [OF scenario_run] scenario_run
  by (simp add: scenario_result_def file_rows_def match_rows_def get_team_stats_blue
        get_team_stats_red)

section \<open>The driver, end to end\<close>

text \<open>
  A run of \<^verbatim>\<open>main\<close> that ends normally has found the output path absent, so with
  \<^verbatim>\<open>max_records \<ge> 1\<close> the file it leaves holds the header and
  \<open>2 * max_records\<close> data rows, and nothing else.
\<close>

lemma main_success:
  assumes "main int_of svc argv w = Some (Inr (), w')"
  obtains start mx w1 where "length argv = 4" "int_of (argv ! 2) = Some start"
    "int_of (argv ! 3) = Some mx" "files w (argv ! 1) = None"
    "get_match_records svc (argv ! 1) start mx 3 (emit (Printed (Creating (argv ! 1))) w)
       = Some (Inr (), w1)"
    "w' = emit (Printed (Retrieved mx (argv ! 1))) w1"
  using assms
  by (auto simp add: main_def Let_def split: if_splits option.splits sum.splits)

lemma main_row_count:
  assumes run: "main int_of svc argv w = Some (Inr (), w')"
    and mx: "int_of (argv ! 3) = Some mx" "1 \<le> mx"
  shows "\<exists>data. files w' (argv ! 1) = Some (header_row # data) \<and>
           int (length data) = 2 * mx \<and> header_row \<notin> set data"
proof -
  from run mx(1) obtain start w1 where absent: "files w (argv ! 1) = None"
    and inner: "get_match_records svc (argv ! 1) start mx 3
                  (emit (Printed (Creating (argv ! 1))) w) = Some (Inr (), w1)"
    and w': "w' = emit (Printed (Retrieved mx (argv ! 1))) w1"
    by (elim main_success) auto
  let ?w0 = "emit (Printed (Creating (argv ! 1))) w"
  from get_match_records_result [OF inner] mx(2) obtain c' where
    files: "files w1 = appended (argv ! 1) (written 0 (accepted_matches svc (probed_ids start c'))) ?w0"
    and len: "int (length (accepted_matches svc (probed_ids start c'))) = mx"
    by auto
  let ?ms = "accepted_matches svc (probed_ids start c')"
  from len mx(2) have ne: "?ms \<noteq> []" by auto
  have "files w' (argv ! 1) = Some (header_row # concat (map match_rows ?ms))"
    using files ne absent by (simp add: w' appended_def written_def emit_def file_rows_def)
  moreover have "int (length (concat (map match_rows ?ms))) = 2 * mx"
    using len by (simp add: length_rows)
  ultimately show ?thesis using header_not_in_rows by blast
qed

text \<open>
  The scenario through \<^verbatim>\<open>main\<close>: four remote calls, each after a pause of 3
  seconds, and a file of three rows.
\<close>

lemma main_scenario:
  "main scenario_int scenario_service [''retrieve_matches.py'', ''out.csv'', ''1000'', ''1'']
       empty_world =
     Some (Inr (),
       \<lparr>files = [''out.csv'' \<mapsto> header_row # match_rows (scenario_match 997)],
        unopenable = {},
        events = [Printed (Creating ''out.csv''),
                  SetApiKey ''RGAPI-KEY-GOES-HERE'', SetRegion ''NA'',
                  Slept 3, Fetched 1000, Printed (NotExist 1000),
                  Slept 3, Fetched 999, Printed (NotExist 999),
                  Slept 3, Fetched 998, Printed (NotExist 998),
                  Slept 3, Fetched 997, Printed (Added 997 1 1),
                  Opened ''out.csv'', Closed ''out.csv'',
                  Printed (Retrieved 1 ''out.csv'')]\<rparr>)"
  by (simp add: main_def scenario_int_def run_defs scenario_defs world_defs match_rows_def
        output_row_def Let_def)

text \<open>
  A path in a directory that does not exist passes the check of \<^verbatim>\<open>main\<close>, since
  it does not exist; the run then ends with the exception of \<^verbatim>\<open>open\<close> on the first
  accepted record, after four remote calls, and nothing is written.
\<close>

lemma main_nodir:
  "main scenario_int scenario_service
       [''retrieve_matches.py'', ''nodir/out.csv'', ''1000'', ''1''] nodir_world =
     Some (Inl (OpenError ''nodir/out.csv''),
       nodir_world\<lparr>events :=
                 [Printed (Creating ''nodir/out.csv''),
                  SetApiKey ''RGAPI-KEY-GOES-HERE'', SetRegion ''NA'',
                  Slept 3, Fetched 1000, Printed (NotExist 1000),
                  Slept 3, Fetched 999, Printed (NotExist 999),
                  Slept 3, Fetched 998, Printed (NotExist 998),
                  Slept 3, Fetched 997, Printed (Added 997 1 1)]\<rparr>)"
  by (simp add: main_def scenario_int_def run_defs scenario_defs world_defs nodir_world_def
        Let_def)

text \<open>
  A run on a service that answers every identifier with the match of three ban slots
  leaves a file whose header has 24 fields and whose two data rows have 22.
\<close>

lemma three_ban_run_widths:
  "map_option (\<lambda>(out, w). (out, map length (file_rows w ''out.csv'')))
     (get_match_records (\<lambda>i. Inr three_ban_match) ''out.csv'' 42 1 0 empty_world) =
   Some (Inr (), [24, 22, 22])"
  by (simp add: run_defs scenario_defs world_defs three_ban_match_def three_ban_team_def
        header_row_def)

end
